theory Spec2Isabelle
  imports Main
begin

section \<open>Errors\<close>

text \<open>
  Every exception the services throw or let through is a value. The first four are the
  framework's HTTP exceptions; \<open>CastError\<close> and \<open>ValidationError\<close> are the object-document
  mapper's, \<open>DuplicateKeyError\<close> the store's and \<open>BcryptError\<close> the hashing library's.
\<close>

datatype error =
    NotFoundException
  | ConflictException
  | UnauthorizedException
  | ForbiddenException
  | CastError
  | ValidationError
  | DuplicateKeyError
  | BcryptError

section \<open>Data model\<close>

text \<open>
  The \<open>User\<close> schema class with the document's \<open>_id\<close>. \<open>'oid\<close> is the store's
  identifier type.
\<close>

record 'oid user_doc =
  doc_id :: 'oid
  username :: string
  password :: string
  roles :: "string list"

text \<open>\<open>Partial<User>\<close>: a request body in which each field may be absent.\<close>

record partial_user =
  username_opt :: "string option"
  password_opt :: "string option"
  roles_opt :: "string list option"

text \<open>
  A document the mapper has loaded is a wrapper object. Its schema paths (\<open>_id\<close>,
  \<open>username\<close>, \<open>password\<close>, \<open>roles\<close>) are accessors on the prototype, which read the raw
  object the wrapper keeps under \<open>_doc\<close>; its own enumerable properties are \<open>$__\<close> (the
  mapper's bookkeeping), \<open>$isNew\<close> and \<open>_doc\<close>. \<open>user_doc\<close> is the wrapper as read
  through its accessors.

  \<open>own_properties\<close> is an object given by its own top-level properties, each present or
  absent: the schema paths, \<open>$isNew\<close> and \<open>_doc\<close> (the bookkeeping \<open>$__\<close> is left out). It
  is the type of what \<open>validateUser\<close> returns, declared \<open>Omit<User, 'password'>\<close>.
\<close>

record 'oid own_properties =
  own_id :: "'oid option"
  own_username :: "string option"
  own_password :: "string option"
  own_roles :: "string list option"
  own_isNew :: "bool option"
  own_doc :: "'oid user_doc option"

text \<open>The body handed to \<open>AuthService.login\<close> (typed \<open>any\<close> in the source).\<close>

record login_body =
  body_username :: "string option"
  body_password :: "string option"

text \<open>The claims \<open>login\<close> signs, and the identity \<open>JwtStrategy.validate\<close> builds from them.\<close>

record 'oid jwt_payload =
  payload_username :: string
  sub :: 'oid
  payload_roles :: "string list"

record 'oid req_user =
  userId :: 'oid
  user_username :: string
  user_roles :: "string list"

record 'tok login_response =
  access_token :: 'tok

text \<open>
  The state the services act on: the documents of the collection in store order, and a
  trace of the effects performed (calls of the hash function, inserts, saves, deletes).
\<close>

datatype 'oid event = Hashed string | Inserted 'oid | Saved 'oid | Deleted 'oid

record 'oid world =
  docs :: "'oid user_doc list"
  trace :: "'oid event list"

section \<open>External collaborators\<close>

text \<open>
  The libraries the code calls are parameters of the model:
  \<^item> \<open>castObjectId\<close>: the mapper's cast of a request string to an identifier; \<open>None\<close> when
    the string is not a well-formed identifier;
  \<^item> \<open>newObjectId\<close>: the identifier given to a new document, from the identifiers in use;
  \<^item> \<open>findOne_undefined\<close>: what the store answers to \<open>findOne({ username: undefined })\<close>;
  \<^item> \<open>bcrypt_hash\<close>, \<open>bcrypt_compare\<close>: the password hashing library;
  \<^item> \<open>BCRYPT_SALT_ROUNDS\<close>: the configuration value of that name;
  \<^item> \<open>jwt_sign\<close>, \<open>jwt_verify\<close>: the token library (\<open>None\<close>: signature or expiry check failed).
\<close>

record ('oid, 'tok) env =
  castObjectId :: "string \<Rightarrow> 'oid option"
  newObjectId :: "'oid list \<Rightarrow> 'oid"
  findOne_undefined :: "'oid user_doc list \<Rightarrow> 'oid user_doc option"
  bcrypt_hash :: "string \<Rightarrow> nat \<Rightarrow> string"
  bcrypt_compare :: "string \<Rightarrow> string \<Rightarrow> bool"
  BCRYPT_SALT_ROUNDS :: nat
  jwt_sign :: "'oid jwt_payload \<Rightarrow> 'tok"
  jwt_verify :: "'tok \<Rightarrow> 'oid jwt_payload option"

section \<open>The role enumeration and the roles guard\<close>

text \<open>
  Modelled from the spec: the enumeration \<open>Role\<close> of \<open>common/enums/role.enum\<close> is not among
  the sources; the spec and the tests name its two labels, \<open>"admin"\<close> and \<open>"user"\<close>.
\<close>

definition Role_Admin :: string where
  "Role_Admin = ''admin''"

definition Role_User :: string where
  "Role_User = ''user''"

text \<open>
  What \<open>canActivate\<close> reads of its execution context: the \<open>roles\<close> metadata of the handler
  and of the controller class (\<open>None\<close>: no \<open>@HasRoles\<close> there) and the request's \<open>user\<close>
  (\<open>None\<close>: no strategy has attached one).
\<close>

record 'oid execution_context =
  handler_roles :: "string list option"
  class_roles :: "string list option"
  request_user :: "'oid req_user option"

text \<open>\<open>HasRoles(...roles)\<close> sets the metadata to the list of its arguments.\<close>

definition HasRoles :: "string list \<Rightarrow> string list option" where
  "HasRoles rs = Some rs"

text \<open>\<open>Reflector.getAllAndOverride\<close>: the first target whose metadata is defined.\<close>

fun getAllAndOverride :: "'a option list \<Rightarrow> 'a option" where
  "getAllAndOverride [] = None"
| "getAllAndOverride (None # ts) = getAllAndOverride ts"
| "getAllAndOverride (Some r # ts) = Some r"

text \<open>
  \<open>RolesGuard.canActivate\<close>. \<open>!requiredRoles\<close> holds of \<open>undefined\<close> only: an array, also the
  empty one, is truthy. \<open>user?.roles?.includes(role)\<close> is \<open>undefined\<close>, hence falsy, without a
  user; the identity the token strategy builds always has its \<open>roles\<close>.
\<close>

definition canActivate :: "'oid execution_context \<Rightarrow> bool" where
  "canActivate context =
     (case getAllAndOverride [handler_roles context, class_roles context] of
        None \<Rightarrow> True
      | Some requiredRoles \<Rightarrow>
          list_ex (\<lambda>role. case request_user context of
                             None \<Rightarrow> False
                           | Some user \<Rightarrow> role \<in> set (user_roles user))
                  requiredRoles)"

text \<open>The framework turns a guard's \<open>false\<close> into a \<open>ForbiddenException\<close> (status 403).\<close>

definition RolesGuard :: "'oid execution_context \<Rightarrow> error + unit" where
  "RolesGuard context = (if canActivate context then Inr () else Inl ForbiddenException)"

section \<open>Token strategy\<close>

definition JwtStrategy_validate :: "'oid jwt_payload \<Rightarrow> 'oid req_user" where
  "JwtStrategy_validate payload =
     \<lparr>userId = sub payload, user_username = payload_username payload,
      user_roles = payload_roles payload\<rparr>"

text \<open>
  \<open>JwtAuthGuard\<close>: the bearer token of the authorization header is verified and the
  result of \<open>validate\<close> becomes the request's user; no token or a failed check is a 401.
\<close>

definition JwtAuthGuard :: "('oid, 'tok) env \<Rightarrow> 'tok option \<Rightarrow> error + 'oid req_user" where
  "JwtAuthGuard e authorization =
     (case authorization of
        None \<Rightarrow> Inl UnauthorizedException
      | Some token \<Rightarrow>
          (case jwt_verify e token of
             None \<Rightarrow> Inl UnauthorizedException
           | Some payload \<Rightarrow> Inr (JwtStrategy_validate payload)))"

text \<open>
  A route under \<open>@UseGuards(JwtAuthGuard, RolesGuard)\<close> whose handler answers with
  \<open>req.user\<close>: the guards run in order, the roles guard on the context that carries the
  handler's metadata and the user the token guard attached.
\<close>

definition guarded_route ::
  "('oid, 'tok) env \<Rightarrow> string list option \<Rightarrow> 'tok option \<Rightarrow> error + 'oid req_user" where
  "guarded_route e handlerMeta authorization =
     (case JwtAuthGuard e authorization of
        Inl err \<Rightarrow> Inl err
      | Inr user \<Rightarrow>
          (case RolesGuard \<lparr>handler_roles = handlerMeta, class_roles = None,
                            request_user = Some user\<rparr> of
             Inl err \<Rightarrow> Inl err
           | Inr _ \<Rightarrow> Inr user))"

definition onlyAdmin :: "('oid, 'tok) env \<Rightarrow> 'tok option \<Rightarrow> error + 'oid req_user" where
  "onlyAdmin e authorization = guarded_route e (HasRoles [Role_Admin]) authorization"

definition onlyUser :: "('oid, 'tok) env \<Rightarrow> 'tok option \<Rightarrow> error + 'oid req_user" where
  "onlyUser e authorization = guarded_route e (HasRoles [Role_User]) authorization"

text \<open>\<open>getProfile\<close> is under \<open>@UseGuards(JwtAuthGuard)\<close> alone.\<close>

definition getProfile :: "('oid, 'tok) env \<Rightarrow> 'tok option \<Rightarrow> error + 'oid req_user" where
  "getProfile e authorization = JwtAuthGuard e authorization"

section \<open>The credential store\<close>

text \<open>
  The operations of the mapper's model class on the collection. A query by username
  answers with the first document in store order that matches; a query by \<open>_id\<close> first
  casts the string it is given and throws \<open>CastError\<close> when the cast fails.
\<close>

definition Model_find :: "'oid world \<Rightarrow> 'oid user_doc list" where
  "Model_find w = docs w"

definition Model_findOne ::
  "('oid, 'tok) env \<Rightarrow> string option \<Rightarrow> 'oid world \<Rightarrow> 'oid user_doc option" where
  "Model_findOne e name w =
     (case name of
        None \<Rightarrow> findOne_undefined e (docs w)
      | Some n \<Rightarrow> find (\<lambda>d. username d = n) (docs w))"

definition Model_findById ::
  "('oid, 'tok) env \<Rightarrow> string \<Rightarrow> 'oid world \<Rightarrow> error + 'oid user_doc option" where
  "Model_findById e ident w =
     (case castObjectId e ident of
        None \<Rightarrow> Inl CastError
      | Some oid \<Rightarrow> Inr (find (\<lambda>d. doc_id d = oid) (docs w)))"

definition Model_exists :: "('oid, 'tok) env \<Rightarrow> string \<Rightarrow> 'oid world \<Rightarrow> error + bool" where
  "Model_exists e ident w =
     (case castObjectId e ident of
        None \<Rightarrow> Inl CastError
      | Some oid \<Rightarrow> Inr (find (\<lambda>d. doc_id d = oid) (docs w) \<noteq> None))"

text \<open>\<open>Types.ObjectId.isValid\<close>: the string can be made into an identifier.\<close>

definition ObjectId_isValid :: "('oid, 'tok) env \<Rightarrow> string \<Rightarrow> bool" where
  "ObjectId_isValid e ident = (castObjectId e ident \<noteq> None)"

text \<open>
  The schema's \<open>required: true\<close> on a string path: the value is present and not the empty
  string.
\<close>

definition required :: "string option \<Rightarrow> bool" where
  "required v = (case v of None \<Rightarrow> False | Some s \<Rightarrow> s \<noteq> [])"

text \<open>
  \<open>userModel.create(fields)\<close>: the fields are validated against the schema (\<open>username\<close>
  and \<open>password\<close> required), \<open>roles\<close> takes the schema default \<open>['user']\<close> when it is not
  given, the document gets a new \<open>_id\<close> and is appended to the collection; the store
  refuses an \<open>_id\<close> that is in use.
\<close>

definition Model_create ::
  "('oid, 'tok) env \<Rightarrow> partial_user \<Rightarrow> 'oid world \<Rightarrow> (error + 'oid user_doc) \<times> 'oid world" where
  "Model_create e flds w =
     (case (username_opt flds, password_opt flds) of
        (Some u, Some p) \<Rightarrow>
          if \<not> required (Some u) \<or> \<not> required (Some p) then (Inl ValidationError, w)
          else
            let newUser = \<lparr>doc_id = newObjectId e (map doc_id (docs w)), username = u,
                            password = p,
                            roles = (case roles_opt flds of None \<Rightarrow> [''user''] | Some rs \<Rightarrow> rs)\<rparr>
            in if doc_id newUser \<in> set (map doc_id (docs w)) then (Inl DuplicateKeyError, w)
               else (Inr newUser,
                     w\<lparr>docs := docs w @ [newUser], trace := trace w @ [Inserted (doc_id newUser)]\<rparr>)
      | _ \<Rightarrow> (Inl ValidationError, w))"

text \<open>
  \<open>document.save()\<close> writes the document's fields to the first stored document with its
  \<open>_id\<close>. (The mapper validates again before the write; every value this service
  assigns before a save is a non-empty username, a digest of the hash function or a
  roles array, so that step is not modelled.)
\<close>

fun replace_first :: "'oid user_doc \<Rightarrow> 'oid user_doc list \<Rightarrow> 'oid user_doc list" where
  "replace_first d [] = []"
| "replace_first d (x # xs) = (if doc_id x = doc_id d then d # xs else x # replace_first d xs)"

definition Document_save :: "'oid user_doc \<Rightarrow> 'oid world \<Rightarrow> 'oid world" where
  "Document_save d w = w\<lparr>docs := replace_first d (docs w), trace := trace w @ [Saved (doc_id d)]\<rparr>"

fun remove_first :: "'oid \<Rightarrow> 'oid user_doc list \<Rightarrow> 'oid user_doc list" where
  "remove_first oid [] = []"
| "remove_first oid (x # xs) = (if doc_id x = oid then xs else x # remove_first oid xs)"

definition Model_findByIdAndDelete ::
  "('oid, 'tok) env \<Rightarrow> string \<Rightarrow> 'oid world \<Rightarrow> (error + 'oid user_doc option) \<times> 'oid world" where
  "Model_findByIdAndDelete e ident w =
     (case castObjectId e ident of
        None \<Rightarrow> (Inl CastError, w)
      | Some oid \<Rightarrow>
          (case find (\<lambda>d. doc_id d = oid) (docs w) of
             None \<Rightarrow> (Inr None, w)
           | Some d \<Rightarrow> (Inr (Some d),
                        w\<lparr>docs := remove_first oid (docs w), trace := trace w @ [Deleted oid]\<rparr>)))"

section \<open>AuthService: the password hasher\<close>

text \<open>
  \<open>hashPassword\<close> is declared on a string, but \<open>createUser\<close> hands it a field of a partial
  record: the hash function rejects \<open>undefined\<close>.
\<close>

definition hashPassword ::
  "('oid, 'tok) env \<Rightarrow> string option \<Rightarrow> 'oid world \<Rightarrow> (error + string) \<times> 'oid world" where
  "hashPassword e pw w =
     (case pw of
        None \<Rightarrow> (Inl BcryptError, w)
      | Some p \<Rightarrow> (let saltOrRounds = BCRYPT_SALT_ROUNDS e
                  in (Inr (bcrypt_hash e p saltOrRounds), w\<lparr>trace := trace w @ [Hashed p]\<rparr>)))"

definition comparePassword :: "('oid, 'tok) env \<Rightarrow> string \<Rightarrow> string \<Rightarrow> bool" where
  "comparePassword e pw storedPasswordHash = bcrypt_compare e pw storedPasswordHash"

section \<open>UserService\<close>

definition getAllUsers :: "'oid world \<Rightarrow> 'oid user_doc list" where
  "getAllUsers w = Model_find w"

definition getUserById :: "('oid, 'tok) env \<Rightarrow> string \<Rightarrow> 'oid world \<Rightarrow> error + 'oid user_doc" where
  "getUserById e ident w =
     (if \<not> ObjectId_isValid e ident then Inl NotFoundException
      else (case Model_findById e ident w of
              Inl err \<Rightarrow> Inl err
            | Inr None \<Rightarrow> Inl NotFoundException
            | Inr (Some user) \<Rightarrow> Inr user))"

definition getUserByUsername ::
  "('oid, 'tok) env \<Rightarrow> string option \<Rightarrow> 'oid world \<Rightarrow> error + 'oid user_doc" where
  "getUserByUsername e name w =
     (case Model_findOne e name w of
        None \<Rightarrow> Inl NotFoundException
      | Some user \<Rightarrow> Inr user)"

definition createUser ::
  "('oid, 'tok) env \<Rightarrow> partial_user \<Rightarrow> 'oid world \<Rightarrow> (error + unit) \<times> 'oid world" where
  "createUser e user w =
     (case Model_findOne e (username_opt user) w of
        Some existingUser \<Rightarrow> (Inl ConflictException, w)
      | None \<Rightarrow>
          (case hashPassword e (password_opt user) w of
             (Inl err, w1) \<Rightarrow> (Inl err, w1)
           | (Inr hashedPassword, w1) \<Rightarrow>
               (case Model_create e \<lparr>username_opt = username_opt user,
                                      password_opt = Some hashedPassword,
                                      roles_opt = None\<rparr> w1 of
                  (Inl err, w2) \<Rightarrow> (Inl err, w2)
                | (Inr newUser, w2) \<Rightarrow> (Inr (), Document_save newUser w2))))"

text \<open>
  The three assignments that \<open>updateUserById\<close> and \<open>patchUserById\<close> both make to the
  loaded document. A string is truthy when it is present and not empty; an array is
  truthy when it is present.
\<close>

fun assign_username ::
  "('oid, 'tok) env \<Rightarrow> string option \<Rightarrow> 'oid user_doc \<Rightarrow> 'oid world \<Rightarrow> error + 'oid user_doc" where
  "assign_username e None userDb w = Inr userDb"
| "assign_username e (Some name) userDb w =
     (if name \<noteq> [] \<and> name \<noteq> username userDb
      then (case Model_findOne e (Some name) w of
              Some existingUser \<Rightarrow> Inl ConflictException
            | None \<Rightarrow> Inr (userDb\<lparr>username := name\<rparr>))
      else Inr userDb)"

fun assign_password ::
  "('oid, 'tok) env \<Rightarrow> string option \<Rightarrow> 'oid user_doc \<Rightarrow> 'oid world
     \<Rightarrow> (error + 'oid user_doc) \<times> 'oid world" where
  "assign_password e None userDb w = (Inr userDb, w)"
| "assign_password e (Some p) userDb w =
     (if p \<noteq> []
      then (case hashPassword e (Some p) w of
              (Inl err, w1) \<Rightarrow> (Inl err, w1)
            | (Inr hashed, w1) \<Rightarrow> (Inr (userDb\<lparr>password := hashed\<rparr>), w1))
      else (Inr userDb, w))"

fun assign_roles :: "string list option \<Rightarrow> 'oid user_doc \<Rightarrow> 'oid user_doc" where
  "assign_roles None userDb = userDb"
| "assign_roles (Some rs) userDb = userDb\<lparr>roles := rs\<rparr>"

definition updateUserById ::
  "('oid, 'tok) env \<Rightarrow> string \<Rightarrow> partial_user \<Rightarrow> 'oid world \<Rightarrow> (error + unit) \<times> 'oid world" where
  "updateUserById e ident user w =
     (case Model_findById e ident w of
        Inl err \<Rightarrow> (Inl err, w)
      | Inr None \<Rightarrow> (Inl NotFoundException, w)
      | Inr (Some userDb) \<Rightarrow>
          (case assign_username e (username_opt user) userDb w of
             Inl err \<Rightarrow> (Inl err, w)
           | Inr userDb1 \<Rightarrow>
               (case assign_password e (password_opt user) userDb1 w of
                  (Inl err, w1) \<Rightarrow> (Inl err, w1)
                | (Inr userDb2, w1) \<Rightarrow>
                    (Inr (), Document_save (assign_roles (roles_opt user) userDb2) w1))))"

definition patchUserById ::
  "('oid, 'tok) env \<Rightarrow> string \<Rightarrow> partial_user \<Rightarrow> 'oid world \<Rightarrow> (error + unit) \<times> 'oid world" where
  "patchUserById e ident partialUser w =
     (case Model_findById e ident w of
        Inl err \<Rightarrow> (Inl err, w)
      | Inr None \<Rightarrow> (Inl NotFoundException, w)
      | Inr (Some userDb) \<Rightarrow>
          (case assign_username e (username_opt partialUser) userDb w of
             Inl err \<Rightarrow> (Inl err, w)
           | Inr userDb1 \<Rightarrow>
               (case assign_password e (password_opt partialUser) userDb1 w of
                  (Inl err, w1) \<Rightarrow> (Inl err, w1)
                | (Inr userDb2, w1) \<Rightarrow>
                    (Inr (), Document_save (assign_roles (roles_opt partialUser) userDb2) w1))))"

definition deleteUserById ::
  "('oid, 'tok) env \<Rightarrow> string \<Rightarrow> 'oid world \<Rightarrow> (error + unit) \<times> 'oid world" where
  "deleteUserById e ident w =
     (case Model_exists e ident w of
        Inl err \<Rightarrow> (Inl err, w)
      | Inr userExists \<Rightarrow>
          if \<not> userExists then (Inl NotFoundException, w)
          else (case Model_findByIdAndDelete e ident w of
                  (Inl err, w1) \<Rightarrow> (Inl err, w1)
                | (Inr _, w1) \<Rightarrow> (Inr (), w1)))"

section \<open>AuthService: credentials and login\<close>

text \<open>
  \<open>const { password, ...result } = user\<close> on a loaded document: \<open>password\<close> is read
  through the accessor, and \<open>result\<close> gets the own enumerable properties of the wrapper
  other than \<open>password\<close>. The schema paths are not own properties, so \<open>result\<close> has
  none of them at its top level; it has \<open>$isNew\<close> (false for a document read from the
  store) and \<open>_doc\<close>, the raw object with every field of the record.
\<close>

definition rest_without_password :: "'oid user_doc \<Rightarrow> 'oid own_properties" where
  "rest_without_password user =
     \<lparr>own_id = None, own_username = None, own_password = None, own_roles = None,
      own_isNew = Some False, own_doc = Some user\<rparr>"

text \<open>
  The object the declared type and the service's test (on a plain object in place of the
  document) describe: id, username and roles of the record, and nothing else.
\<close>

definition public_projection :: "'oid user_doc \<Rightarrow> 'oid own_properties" where
  "public_projection user =
     \<lparr>own_id = Some (doc_id user), own_username = Some (username user), own_password = None,
      own_roles = Some (roles user), own_isNew = None, own_doc = None\<rparr>"

definition validateUser ::
  "('oid, 'tok) env \<Rightarrow> string \<Rightarrow> string \<Rightarrow> 'oid world \<Rightarrow> error + 'oid own_properties option" where
  "validateUser e name pw w =
     (case getUserByUsername e (Some name) w of
        Inl err \<Rightarrow> Inl err
      | Inr user \<Rightarrow>
          if comparePassword e pw (password user) then Inr (Some (rest_without_password user))
          else Inr None)"

definition login ::
  "('oid, 'tok) env \<Rightarrow> login_body \<Rightarrow> 'oid world \<Rightarrow> error + 'tok login_response" where
  "login e body w =
     (case getUserByUsername e (body_username body) w of
        Inl err \<Rightarrow> Inl err
      | Inr userDB \<Rightarrow>
          (let payload = \<lparr>payload_username = username userDB, sub = doc_id userDB,
                          payload_roles = roles userDB\<rparr>
           in Inr \<lparr>access_token = jwt_sign e payload\<rparr>))"

definition LocalStrategy_validate ::
  "('oid, 'tok) env \<Rightarrow> string \<Rightarrow> string \<Rightarrow> 'oid world \<Rightarrow> error + 'oid own_properties" where
  "LocalStrategy_validate e name pw w =
     (case validateUser e name pw w of
        Inl err \<Rightarrow> Inl err
      | Inr None \<Rightarrow> Inl UnauthorizedException
      | Inr (Some user) \<Rightarrow> Inr user)"

section \<open>UserController: the list endpoint\<close>

text \<open>
  A response is a status and a JSON body. In the JSON of a user every schema path of the
  document is written; \<open>json_password\<close> is an option so that an object without the
  field can be told from one with it.
\<close>

datatype HttpStatus = OK | CREATED | NO_CONTENT

record 'oid user_json =
  json_id :: 'oid
  json_username :: string
  json_password :: "string option"
  json_roles :: "string list"

record 'oid users_response =
  res_status :: HttpStatus
  res_body :: "'oid user_json list"

definition toJSON :: "'oid user_doc \<Rightarrow> 'oid user_json" where
  "toJSON d = \<lparr>json_id = doc_id d, json_username = username d,
               json_password = Some (password d), json_roles = roles d\<rparr>"

definition redacted :: "'oid user_json \<Rightarrow> bool" where
  "redacted j = (json_password j = None)"

definition UserController_getAllUsers :: "'oid world \<Rightarrow> 'oid users_response" where
  "UserController_getAllUsers w =
     (let users = getAllUsers w
      in if length users = 0 then \<lparr>res_status = NO_CONTENT, res_body = map toJSON users\<rparr>
         else \<lparr>res_status = OK, res_body = map toJSON users\<rparr>)"

section \<open>The store invariant and sample collaborators\<close>

text \<open>No two stored documents share a username.\<close>

definition username_unique :: "'oid world \<Rightarrow> bool" where
  "username_unique w = distinct (map username (docs w))"

text \<open>
  One instance of the collaborators, for evaluating the services on concrete requests:
  identifiers are strings of 24 hexadecimal digits, a token is the payload with the key
  it was signed with, and the digest of a password is the password behind a fixed prefix.
\<close>

definition is_hex :: "char \<Rightarrow> bool" where
  "is_hex c = (c \<in> set ''0123456789abcdefABCDEF'')"

definition sample_cast :: "string \<Rightarrow> string option" where
  "sample_cast s = (if length s = 24 \<and> list_all is_hex s then Some s else None)"

definition sample_env :: "(string, string jwt_payload \<times> string) env" where
  "sample_env =
     \<lparr>castObjectId = sample_cast,
      newObjectId = (\<lambda>ids. ''aaaaaaaaaaaaaaaaaaaaaaaa''),
      findOne_undefined = (\<lambda>ds. None),
      bcrypt_hash = (\<lambda>p rounds. ''$2b$'' @ p),
      bcrypt_compare = (\<lambda>p h. h = ''$2b$'' @ p),
      BCRYPT_SALT_ROUNDS = 10,
      jwt_sign = (\<lambda>payload. (payload, ''secret'')),
      jwt_verify = (\<lambda>(payload, key). if key = ''secret'' then Some payload else None)\<rparr>"

definition alice :: "string user_doc" where
  "alice = \<lparr>doc_id = ''60d5f9f5319a5c1d4c8e7b60'', username = ''alice'',
            password = ''$2b$wonderland'', roles = [''admin'']\<rparr>"

definition bob :: "string user_doc" where
  "bob = \<lparr>doc_id = ''60d5f9f5319a5c1d4c8e7b61'', username = ''bob'',
          password = ''$2b$builder'', roles = [''user'']\<rparr>"

definition sample_world :: "string world" where
  "sample_world = \<lparr>docs = [alice, bob], trace = []\<rparr>"

text \<open>A candidate that asks for the role \<open>admin\<close>, and the state after it is created.\<close>

definition carol_candidate :: partial_user where
  "carol_candidate =
     \<lparr>username_opt = Some ''carol'', password_opt = Some ''pw'', roles_opt = Some [''admin'']\<rparr>"

definition carol_world :: "string world" where
  "carol_world =
     \<lparr>docs = [alice, bob,
              \<lparr>doc_id = ''aaaaaaaaaaaaaaaaaaaaaaaa'', username = ''carol'', password = ''$2b$pw'',
               roles = [''user'']\<rparr>],
      trace = [Hashed ''pw'', Inserted ''aaaaaaaaaaaaaaaaaaaaaaaa'',
               Saved ''aaaaaaaaaaaaaaaaaaaaaaaa'']\<rparr>"

section \<open>The roles guard: properties\<close>

lemma canActivate_no_metadata:
  "getAllAndOverride [handler_roles c, class_roles c] = None \<Longrightarrow> canActivate c"
  by (simp add: canActivate_def)

lemma canActivate_required:
  "getAllAndOverride [handler_roles c, class_roles c] = Some rs \<Longrightarrow> request_user c = Some u \<Longrightarrow>
   canActivate c \<longleftrightarrow> set rs \<inter> set (user_roles u) \<noteq> {}"
  by (auto simp add: canActivate_def list_ex_iff)

text \<open>
  C1, as the code has it. For a request whose token check has attached the identity \<open>u\<close>:
  when the declared required-roles list is non-empty and \<open>u\<close> has none of the listed roles,
  the guard rejects with the authorization error; when no list is declared at all, the
  guard allows; and when the declared list is empty, the guard rejects as well, since no
  listed role can be among the identity's.
\<close>

theorem RolesGuard_decision:
  assumes "request_user c = Some u"
  shows "(\<forall>rs. getAllAndOverride [handler_roles c, class_roles c] = Some rs \<and> rs \<noteq> [] \<and>
               set rs \<inter> set (user_roles u) = {} \<longrightarrow> RolesGuard c = Inl ForbiddenException)
       \<and> (getAllAndOverride [handler_roles c, class_roles c] = None \<longrightarrow> RolesGuard c = Inr ())
       \<and> (getAllAndOverride [handler_roles c, class_roles c] = Some [] \<longrightarrow>
            RolesGuard c = Inl ForbiddenException)"
  using assms canActivate_required [of c _ u] canActivate_no_metadata [of c]
  by (auto simp add: RolesGuard_def)

theorem RolesGuard_decision_witness:
  "RolesGuard \<lparr>handler_roles = HasRoles [Role_Admin], class_roles = None,
      request_user = Some \<lparr>userId = (1::nat), user_username = ''bob'', user_roles = [Role_User]\<rparr>\<rparr>
     = Inl ForbiddenException
   \<and> RolesGuard \<lparr>handler_roles = None, class_roles = None,
      request_user = Some \<lparr>userId = (1::nat), user_username = ''bob'', user_roles = [Role_User]\<rparr>\<rparr>
     = Inr ()
   \<and> RolesGuard \<lparr>handler_roles = HasRoles [], class_roles = None,
      request_user = Some \<lparr>userId = (1::nat), user_username = ''bob'', user_roles = [Role_User]\<rparr>\<rparr>
     = Inl ForbiddenException"
  using
    RolesGuard_decision [of "\<lparr>handler_roles = HasRoles [Role_Admin], class_roles = None,
      request_user = Some \<lparr>userId = (1::nat), user_username = ''bob'', user_roles = [Role_User]\<rparr>\<rparr>"
      "\<lparr>userId = (1::nat), user_username = ''bob'', user_roles = [Role_User]\<rparr>"]
    RolesGuard_decision [of "\<lparr>handler_roles = None, class_roles = None,
      request_user = Some \<lparr>userId = (1::nat), user_username = ''bob'', user_roles = [Role_User]\<rparr>\<rparr>"
      "\<lparr>userId = (1::nat), user_username = ''bob'', user_roles = [Role_User]\<rparr>"]
    RolesGuard_decision [of "\<lparr>handler_roles = HasRoles [], class_roles = None,
      request_user = Some \<lparr>userId = (1::nat), user_username = ''bob'', user_roles = [Role_User]\<rparr>\<rparr>"
      "\<lparr>userId = (1::nat), user_username = ''bob'', user_roles = [Role_User]\<rparr>"]
  by (simp add: HasRoles_def Role_Admin_def Role_User_def)

text \<open>
  The claim's clause for the declared empty list fails: under \<open>@HasRoles()\<close> an identity
  with role \<open>"user"\<close> is not allowed.
\<close>

theorem RolesGuard_empty_list_counterexample:
  "RolesGuard \<lparr>handler_roles = HasRoles [], class_roles = None,
      request_user = Some \<lparr>userId = (1::nat), user_username = ''bob'', user_roles = [Role_User]\<rparr>\<rparr>
     \<noteq> Inr ()"
  by (simp add: RolesGuard_def canActivate_def HasRoles_def)

text \<open>
  The routes of the controller on a verified token whose roles are \<open>['user']\<close>: the admin
  route answers 403, the user route and the profile route answer with the identity.
\<close>

lemma user_token_routes:
  assumes "jwt_verify e tok = Some payload" and "payload_roles payload = [''user'']"
  shows "onlyAdmin e (Some tok) = Inl ForbiddenException
       \<and> onlyUser e (Some tok) = Inr (JwtStrategy_validate payload)
       \<and> getProfile e (Some tok) = Inr (JwtStrategy_validate payload)"
  using assms
  by (simp add: onlyAdmin_def onlyUser_def getProfile_def guarded_route_def JwtAuthGuard_def
      RolesGuard_def canActivate_def HasRoles_def Role_Admin_def Role_User_def
      JwtStrategy_validate_def)

section \<open>Lookups in the store\<close>

lemma find_username_unique:
  "distinct (map username ds) \<Longrightarrow> u \<in> set ds \<Longrightarrow> find (\<lambda>d. username d = username u) ds = Some u"
  by (induction ds) (auto simp add: image_iff)

lemma find_SomeD: "find P xs = Some x \<Longrightarrow> P x \<and> x \<in> set xs"
  by (induction xs) (auto split: if_splits)

section \<open>AuthService: properties\<close>

text \<open>
  C2. In a store without duplicate usernames, for every stored record \<open>u\<close> and whatever
  password \<open>p\<close> the body carries (none, the right one, a wrong one), \<open>login\<close> on
  \<open>u\<close>'s username succeeds from the lookup alone, and the token it returns passes the
  token check (of a token library that verifies what it has signed) with exactly the
  claims subject \<open>u\<close>'s id, \<open>u\<close>'s username (the submitted one) and \<open>u\<close>'s roles.
\<close>

theorem login_verified_claims:
  assumes "username_unique w" and "u \<in> set (docs w)"
    and "\<forall>c. jwt_verify e (jwt_sign e c) = Some c"
  shows "\<exists>tok. login e \<lparr>body_username = Some (username u), body_password = p\<rparr> w
                 = Inr \<lparr>access_token = tok\<rparr>
             \<and> JwtAuthGuard e (Some tok)
                 = Inr \<lparr>userId = doc_id u, user_username = username u, user_roles = roles u\<rparr>"
proof -
  have "Model_findOne e (Some (username u)) w = Some u"
    using assms(1,2) by (simp add: Model_findOne_def username_unique_def find_username_unique)
  then have "login e \<lparr>body_username = Some (username u), body_password = p\<rparr> w
      = Inr \<lparr>access_token = jwt_sign e \<lparr>payload_username = username u, sub = doc_id u,
                                          payload_roles = roles u\<rparr>\<rparr>"
    by (simp add: login_def getUserByUsername_def)
  moreover have "JwtAuthGuard e (Some (jwt_sign e \<lparr>payload_username = username u, sub = doc_id u,
                                          payload_roles = roles u\<rparr>))
      = Inr \<lparr>userId = doc_id u, user_username = username u, user_roles = roles u\<rparr>"
    using assms(3) by (simp add: JwtAuthGuard_def JwtStrategy_validate_def)
  ultimately show ?thesis by blast
qed

theorem login_verified_claims_witness:
  "login sample_env \<lparr>body_username = Some ''bob'', body_password = Some ''not the password''\<rparr>
       sample_world
     = Inr \<lparr>access_token = (\<lparr>payload_username = ''bob'', sub = ''60d5f9f5319a5c1d4c8e7b61'',
                               payload_roles = [''user'']\<rparr>, ''secret'')\<rparr>
   \<and> JwtAuthGuard sample_env
       (Some (\<lparr>payload_username = ''bob'', sub = ''60d5f9f5319a5c1d4c8e7b61'',
                payload_roles = [''user'']\<rparr>, ''secret''))
     = Inr \<lparr>userId = ''60d5f9f5319a5c1d4c8e7b61'', user_username = ''bob'', user_roles = [''user'']\<rparr>"
proof -
  have u: "username_unique sample_world"
    by (simp add: username_unique_def sample_world_def alice_def bob_def)
  have m: "bob \<in> set (docs sample_world)"
    by (simp add: sample_world_def)
  have v: "\<forall>c. jwt_verify sample_env (jwt_sign sample_env c) = Some c"
    by (simp add: sample_env_def)
  have l: "login sample_env
             \<lparr>body_username = Some ''bob'', body_password = Some ''not the password''\<rparr> sample_world
           = Inr \<lparr>access_token = (\<lparr>payload_username = ''bob'', sub = ''60d5f9f5319a5c1d4c8e7b61'',
                               payload_roles = [''user'']\<rparr>, ''secret'')\<rparr>"
    by (simp add: login_def getUserByUsername_def Model_findOne_def sample_world_def alice_def
        bob_def sample_env_def)
  from login_verified_claims [OF u m v, of "Some ''not the password''"]
  obtain tok where
    t: "login sample_env
          \<lparr>body_username = Some (username bob), body_password = Some ''not the password''\<rparr>
          sample_world = Inr \<lparr>access_token = tok\<rparr>"
    and g: "JwtAuthGuard sample_env (Some tok)
          = Inr \<lparr>userId = doc_id bob, user_username = username bob, user_roles = roles bob\<rparr>"
    by blast
  have "username bob = ''bob''"
    by (simp add: bob_def)
  with t l have "tok = (\<lparr>payload_username = ''bob'', sub = ''60d5f9f5319a5c1d4c8e7b61'',
                               payload_roles = [''user'']\<rparr>, ''secret'')"
    by simp
  with g l show ?thesis
    by (simp add: bob_def)
qed

text \<open>
  \<open>validateUser\<close> on a username and a plaintext password: when no record has the
  username, the lookup's \<open>NotFoundException\<close> comes through; when the record with the
  username does not match the password, the result is \<open>null\<close>; when it matches, the
  result is the rest of the destructured document.
\<close>

lemma validateUser_not_found:
  assumes "\<forall>d \<in> set (docs w). username d \<noteq> name"
  shows "validateUser e name pw w = Inl NotFoundException"
proof -
  from assms have "find (\<lambda>d. username d = name) (docs w) = None"
    by (simp add: find_None_iff)
  then show ?thesis
    by (simp add: validateUser_def getUserByUsername_def Model_findOne_def)
qed

lemma validateUser_found:
  assumes "find (\<lambda>d. username d = name) (docs w) = Some u"
  shows "validateUser e name pw w
           = (if bcrypt_compare e pw (password u) then Inr (Some (rest_without_password u))
              else Inr None)"
  using assms
  by (simp add: validateUser_def getUserByUsername_def Model_findOne_def comparePassword_def)

text \<open>
  C3, at a username and password that match the stored record of \<open>bob\<close>: \<open>validateUser\<close>
  does not return the record's public projection with the password hash excluded. The
  object it returns has no id, username or roles of its own, and under \<open>_doc\<close> it carries
  the whole record, the stored hash included.
\<close>

theorem validateUser_keeps_hash:
  "validateUser sample_env ''bob'' ''builder'' sample_world
     = Inr (Some \<lparr>own_id = None, own_username = None, own_password = None, own_roles = None,
                   own_isNew = Some False,
                   own_doc = Some \<lparr>doc_id = ''60d5f9f5319a5c1d4c8e7b61'', username = ''bob'',
                                    password = ''$2b$builder'', roles = [''user'']\<rparr>\<rparr>)
   \<and> validateUser sample_env ''bob'' ''builder'' sample_world
     \<noteq> Inr (Some (public_projection bob))"
  by (simp add: validateUser_def getUserByUsername_def Model_findOne_def comparePassword_def
      rest_without_password_def public_projection_def sample_env_def sample_world_def
      alice_def bob_def)

section \<open>UserService.createUser: properties\<close>

text \<open>
  C4. A candidate whose username is that of a stored record is refused with
  \<open>ConflictException\<close>, whatever its password and roles fields are (also when they are
  absent), and the state is the one before the call: no document is inserted and the
  trace gains no call of the hash function.
\<close>

theorem createUser_conflict:
  assumes "d \<in> set (docs w)" and "username_opt candidate = Some (username d)"
  shows "createUser e candidate w = (Inl ConflictException, w)"
proof -
  have "find (\<lambda>x. username x = username d) (docs w) \<noteq> None"
    using assms(1) by (auto simp add: find_None_iff)
  then show ?thesis
    using assms(2) by (auto simp add: createUser_def Model_findOne_def)
qed

theorem createUser_conflict_witness:
  "createUser sample_env \<lparr>username_opt = Some ''bob'', password_opt = Some ''another'',
       roles_opt = Some [''admin'']\<rparr> sample_world
     = (Inl ConflictException, sample_world)
   \<and> createUser sample_env \<lparr>username_opt = Some ''bob'', password_opt = None,
       roles_opt = None\<rparr> sample_world
     = (Inl ConflictException, sample_world)"
proof -
  have m: "bob \<in> set (docs sample_world)"
    by (simp add: sample_world_def)
  have n: "Some ''bob'' = Some (username bob)"
    by (simp add: bob_def)
  show ?thesis
    using createUser_conflict [OF m, of "\<lparr>username_opt = Some ''bob'',
        password_opt = Some ''another'', roles_opt = Some [''admin'']\<rparr>" sample_env]
      createUser_conflict [OF m, of "\<lparr>username_opt = Some ''bob'',
        password_opt = None, roles_opt = None\<rparr>" sample_env] n
    by simp
qed

text \<open>What an accepted and what a refused \<open>createUser\<close> does to the state.\<close>

lemma replace_first_fresh:
  "doc_id d \<notin> set (map doc_id ds) \<Longrightarrow> replace_first d (ds @ [d]) = ds @ [d]"
  by (induction ds) auto

lemma createUser_accepted:
  assumes "createUser e c w = (Inr (), w')"
  shows "\<exists>n p. username_opt c = Some n \<and> n \<noteq> [] \<and> password_opt c = Some p
           \<and> find (\<lambda>d. username d = n) (docs w) = None
           \<and> docs w' = docs w @ [\<lparr>doc_id = newObjectId e (map doc_id (docs w)), username = n,
                 password = bcrypt_hash e p (BCRYPT_SALT_ROUNDS e), roles = [''user'']\<rparr>]
           \<and> trace w' = trace w @ [Hashed p, Inserted (newObjectId e (map doc_id (docs w))),
                 Saved (newObjectId e (map doc_id (docs w)))]"
  using assms replace_first_fresh [of _ "docs w"]
  by (auto simp add: createUser_def Model_findOne_def hashPassword_def Model_create_def
      Document_save_def required_def Let_def
      split: option.splits sum.splits prod.splits if_splits)

lemma createUser_rejected:
  assumes "createUser e c w = (Inl err, w')"
  shows "docs w' = docs w"
  using assms
  by (auto simp add: createUser_def Model_findOne_def hashPassword_def Model_create_def
      Document_save_def required_def Let_def
      split: option.splits sum.splits prod.splits if_splits)

section \<open>Saving a loaded document\<close>

lemma find_append_usernames:
  "find P (xs @ ys) = (case find P xs of None \<Rightarrow> find P ys | Some x \<Rightarrow> Some x)"
  by (induction xs) auto

lemma replace_first_username_set:
  "set (map username (replace_first d' ds)) \<subseteq> insert (username d') (set (map username ds))"
  by (induction ds) auto

lemma replace_first_usernames:
  "find (\<lambda>x. doc_id x = doc_id d') ds = Some d \<Longrightarrow> distinct (map username ds) \<Longrightarrow>
   username d' = username d \<or> username d' \<notin> set (map username ds) \<Longrightarrow>
   distinct (map username (replace_first d' ds))"
proof (induction ds)
  case Nil
  then show ?case by simp
next
  case (Cons x xs)
  show ?case
  proof (cases "doc_id x = doc_id d'")
    case True
    with Cons.prems show ?thesis by auto
  next
    case False
    with Cons.prems have f: "find (\<lambda>x. doc_id x = doc_id d') xs = Some d"
      by simp
    then have "d \<in> set xs"
      by (simp add: find_SomeD)
    with Cons.prems have ne: "username x \<noteq> username d'"
      by auto
    from Cons.prems have "username d' = username d \<or> username d' \<notin> set (map username xs)"
      by auto
    with Cons.IH f Cons.prems have "distinct (map username (replace_first d' xs))"
      by simp
    moreover have "username x \<notin> set (map username (replace_first d' xs))"
      using replace_first_username_set [of d' xs] ne Cons.prems(2) by auto
    ultimately show ?thesis
      using False by simp
  qed
qed

lemma find_replace_first:
  "find (\<lambda>x. doc_id x = doc_id d') ds = Some d \<Longrightarrow>
   find (\<lambda>x. doc_id x = doc_id d') (replace_first d' ds) = Some d'"
  by (induction ds) (auto split: if_splits)

section \<open>UserService.updateUserById and patchUserById: properties\<close>

lemma assign_username_result:
  "assign_username e n userDb w = Inr d1 \<Longrightarrow>
   doc_id d1 = doc_id userDb \<and> password d1 = password userDb \<and> roles d1 = roles userDb
   \<and> (username d1 = username userDb \<or> username d1 \<notin> set (map username (docs w)))"
  by (cases n) (auto simp add: Model_findOne_def find_None_iff split: if_splits option.splits)

lemma assign_password_docs:
  "assign_password e p d1 w = (r, w1) \<Longrightarrow> docs w1 = docs w"
  by (cases p) (auto simp add: hashPassword_def split: if_splits)

lemma assign_password_result:
  "assign_password e p d1 w = (Inr d2, w1) \<Longrightarrow>
   doc_id d2 = doc_id d1 \<and> username d2 = username d1 \<and> roles d2 = roles d1"
  by (cases p) (auto simp add: hashPassword_def split: if_splits)

lemma assign_roles_result:
  "doc_id (assign_roles r d) = doc_id d \<and> username (assign_roles r d) = username d
   \<and> password (assign_roles r d) = password d"
  by (cases r) auto

lemma patchUserById_eq_updateUserById:
  "patchUserById e ident partialUser w = updateUserById e ident partialUser w"
  by (simp add: patchUserById_def updateUserById_def)



lemma Model_findById_SomeD:
  assumes "Model_findById e ident w = Inr (Some userDb)"
  shows "find (\<lambda>x. doc_id x = doc_id userDb) (docs w) = Some userDb"
proof -
  from assms obtain oid where f0: "find (\<lambda>d. doc_id d = oid) (docs w) = Some userDb"
    by (auto simp add: Model_findById_def split: option.splits)
  from find_SomeD [OF f0] have "doc_id userDb = oid" by simp
  with f0 show ?thesis by simp
qed

lemma updateUserById_failed:
  assumes "updateUserById e ident user w = (Inl err, w')"
  shows "docs w' = docs w"
proof (cases "Model_findById e ident w")
  case (Inl a)
  with assms show ?thesis by (simp add: updateUserById_def)
next
  case (Inr found)
  show ?thesis
  proof (cases found)
    case None
    with Inr assms show ?thesis by (simp add: updateUserById_def)
  next
    case (Some userDb)
    show ?thesis
    proof (cases "assign_username e (username_opt user) userDb w")
      case (Inl a)
      with Inr Some assms show ?thesis by (simp add: updateUserById_def)
    next
      case d1: (Inr userDb1)
      obtain r w1 where p: "assign_password e (password_opt user) userDb1 w = (r, w1)"
        by (cases "assign_password e (password_opt user) userDb1 w")
      from assign_password_docs [OF p] have "docs w1 = docs w" .
      with Inr Some d1 p assms show ?thesis
        by (cases r) (simp_all add: updateUserById_def)
    qed
  qed
qed


lemma updateUserById_succeeded:
  assumes "updateUserById e ident user w = (Inr (), w')"
  shows "\<exists>userDb userDb1 userDb2 w1.
           Model_findById e ident w = Inr (Some userDb)
         \<and> assign_username e (username_opt user) userDb w = Inr userDb1
         \<and> assign_password e (password_opt user) userDb1 w = (Inr userDb2, w1)
         \<and> w' = Document_save (assign_roles (roles_opt user) userDb2) w1"
  using assms
  by (simp add: updateUserById_def split: sum.splits option.splits prod.splits)


lemma updateUserById_unique:
  assumes "username_unique w"
  shows "username_unique (snd (updateUserById e ident user w))"
proof (cases "updateUserById e ident user w")
  case (Pair r w')
  show ?thesis
  proof (cases r)
    case (Inl err)
    with Pair have "docs w' = docs w"
      using updateUserById_failed [of e ident user w err w'] by simp
    with assms Pair show ?thesis
      by (simp add: username_unique_def)
  next
    case (Inr x)
    with Pair have "updateUserById e ident user w = (Inr (), w')"
      by simp
    from updateUserById_succeeded [OF this] obtain userDb userDb1 userDb2 w1 where
      f: "Model_findById e ident w = Inr (Some userDb)"
      and d1: "assign_username e (username_opt user) userDb w = Inr userDb1"
      and p: "assign_password e (password_opt user) userDb1 w = (Inr userDb2, w1)"
      and w': "w' = Document_save (assign_roles (roles_opt user) userDb2) w1"
      by blast
    let ?d = "assign_roles (roles_opt user) userDb2"
    note a1 = assign_username_result [OF d1]
    note a2 = assign_password_result [OF p]
    note a3 = assign_password_docs [OF p]
    have i: "doc_id ?d = doc_id userDb"
      using a1 a2 by (simp add: assign_roles_result)
    have u: "username ?d = username userDb \<or> username ?d \<notin> set (map username (docs w))"
      using a1 a2 by (simp add: assign_roles_result)
    have "find (\<lambda>x. doc_id x = doc_id ?d) (docs w) = Some userDb"
      using Model_findById_SomeD [OF f] i by simp
    with u assms have "distinct (map username (replace_first ?d (docs w)))"
      using replace_first_usernames [of ?d "docs w" userDb]
      by (simp add: username_unique_def)
    moreover have "docs w' = replace_first ?d (docs w)"
      using w' a3 by (simp add: Document_save_def)
    ultimately show ?thesis
      using Pair by (simp add: username_unique_def)
  qed
qed


lemma createUser_unique:
  assumes "username_unique w"
  shows "username_unique (snd (createUser e c w))"
proof (cases "createUser e c w")
  case (Pair r w')
  show ?thesis
  proof (cases r)
    case (Inl err)
    with Pair have "docs w' = docs w"
      using createUser_rejected [of e c w err w'] by simp
    with assms Pair show ?thesis
      by (simp add: username_unique_def)
  next
    case (Inr x)
    with Pair have "createUser e c w = (Inr (), w')"
      by simp
    from createUser_accepted [OF this] obtain n d where
      "find (\<lambda>d. username d = n) (docs w) = None" and "docs w' = docs w @ [d]" and "username d = n"
      by fastforce
    with assms Pair show ?thesis
      by (auto simp add: username_unique_def find_None_iff)
  qed
qed

text \<open>
  C5. From a state in which no two documents share a username, \<open>createUser\<close>,
  \<open>updateUserById\<close> (replace) and \<open>patchUserById\<close> (patch), run one after the other,
  each lead to a state with the same property, whatever their arguments and whether
  they succeed or throw: a username is written only after \<open>findOne\<close> has found no
  document with it.
\<close>

theorem username_unique_preserved:
  assumes "username_unique w"
  shows "username_unique (snd (createUser e candidate w))
       \<and> username_unique (snd (updateUserById e ident user w))
       \<and> username_unique (snd (patchUserById e ident partialUser w))"
  using assms
  by (simp add: createUser_unique updateUserById_unique patchUserById_eq_updateUserById)

theorem username_unique_preserved_witness:
  "username_unique (snd (createUser sample_env
       \<lparr>username_opt = Some ''carol'', password_opt = Some ''pw'', roles_opt = None\<rparr> sample_world))
   \<and> username_unique (snd (updateUserById sample_env ''60d5f9f5319a5c1d4c8e7b61''
       \<lparr>username_opt = Some ''alice'', password_opt = Some ''pw'', roles_opt = Some []\<rparr> sample_world))
   \<and> username_unique (snd (patchUserById sample_env ''60d5f9f5319a5c1d4c8e7b61''
       \<lparr>username_opt = Some ''robert'', password_opt = None, roles_opt = None\<rparr> sample_world))"
proof -
  have u: "username_unique sample_world"
    by (simp add: username_unique_def sample_world_def alice_def bob_def)
  from username_unique_preserved [OF u] show ?thesis .
qed

text \<open>
  C7. For the record \<open>d\<close> stored under an id: a patch that carries only a roles list
  succeeds, after it the record under the id is \<open>d\<close> with the new roles (username and
  password hash as before), and the only effect is the save; a patch whose username is
  \<open>d\<close>'s current one (whatever else it carries) succeeds, leaves the username of the
  record under the id as it was, and its last effect is the save.
\<close>

theorem patchUserById_frame:
  assumes "castObjectId e ident = Some oid"
    and "find (\<lambda>x. doc_id x = oid) (docs w) = Some d"
  shows "(\<exists>w'. patchUserById e ident
                  \<lparr>username_opt = None, password_opt = None, roles_opt = Some rs\<rparr> w = (Inr (), w')
              \<and> find (\<lambda>x. doc_id x = oid) (docs w') = Some (d\<lparr>roles := rs\<rparr>)
              \<and> trace w' = trace w @ [Saved oid])
       \<and> (username_opt partialUser = Some (username d) \<longrightarrow>
            (\<exists>w' d' evs. patchUserById e ident partialUser w = (Inr (), w')
              \<and> find (\<lambda>x. doc_id x = oid) (docs w') = Some d'
              \<and> username d' = username d
              \<and> trace w' = trace w @ evs @ [Saved oid]))"
proof (intro conjI impI)
  from find_SomeD [OF assms(2)] have i: "doc_id d = oid"
    by simp
  have f: "Model_findById e ident w = Inr (Some d)"
    using assms by (simp add: Model_findById_def)
  let ?d = "d\<lparr>roles := rs\<rparr>"
  have "find (\<lambda>x. doc_id x = doc_id ?d) (replace_first ?d (docs w)) = Some ?d"
    using find_replace_first [of ?d "docs w" d] assms(2) i by simp
  then show "\<exists>w'. patchUserById e ident
                  \<lparr>username_opt = None, password_opt = None, roles_opt = Some rs\<rparr> w = (Inr (), w')
              \<and> find (\<lambda>x. doc_id x = oid) (docs w') = Some (d\<lparr>roles := rs\<rparr>)
              \<and> trace w' = trace w @ [Saved oid]"
    using f i by (simp add: patchUserById_def Document_save_def)
next
  assume same: "username_opt partialUser = Some (username d)"
  from find_SomeD [OF assms(2)] have i: "doc_id d = oid"
    by simp
  have f: "Model_findById e ident w = Inr (Some d)"
    using assms by (simp add: Model_findById_def)
  have a1: "assign_username e (username_opt partialUser) d w = Inr d"
    using same by simp
  obtain d2 evs where
    a2: "assign_password e (password_opt partialUser) d w
           = (Inr d2, w\<lparr>trace := trace w @ evs\<rparr>)"
    and k: "doc_id d2 = doc_id d \<and> username d2 = username d"
  proof (cases "password_opt partialUser")
    case None
    then have "assign_password e (password_opt partialUser) d w = (Inr d, w\<lparr>trace := trace w @ []\<rparr>)"
      by simp
    with that show ?thesis by blast
  next
    case (Some p)
    show ?thesis
    proof (cases "p = []")
      case True
      with Some
      have "assign_password e (password_opt partialUser) d w = (Inr d, w\<lparr>trace := trace w @ []\<rparr>)"
        by simp
      with that show ?thesis by blast
    next
      case False
      with Some
      have "assign_password e (password_opt partialUser) d w
          = (Inr (d\<lparr>password := bcrypt_hash e p (BCRYPT_SALT_ROUNDS e)\<rparr>),
             w\<lparr>trace := trace w @ [Hashed p]\<rparr>)"
        by (simp add: hashPassword_def)
      with that [of "d\<lparr>password := bcrypt_hash e p (BCRYPT_SALT_ROUNDS e)\<rparr>" "[Hashed p]"]
      show ?thesis by simp
    qed
  qed
  let ?d = "assign_roles (roles_opt partialUser) d2"
  let ?w = "Document_save ?d (w\<lparr>trace := trace w @ evs\<rparr>)"
  have r: "patchUserById e ident partialUser w = (Inr (), ?w)"
    using f a1 a2 by (simp add: patchUserById_def)
  have i': "doc_id ?d = oid" and u: "username ?d = username d"
    using k i by (simp_all add: assign_roles_result)
  have "find (\<lambda>x. doc_id x = doc_id ?d) (replace_first ?d (docs w)) = Some ?d"
    using find_replace_first [of ?d "docs w" d] assms(2) i' by simp
  then have "find (\<lambda>x. doc_id x = oid) (docs ?w) = Some ?d"
    using i' by (simp add: Document_save_def)
  moreover have "trace ?w = trace w @ evs @ [Saved oid]"
    using i' by (simp add: Document_save_def)
  ultimately show "\<exists>w' d' evs. patchUserById e ident partialUser w = (Inr (), w')
              \<and> find (\<lambda>x. doc_id x = oid) (docs w') = Some d'
              \<and> username d' = username d
              \<and> trace w' = trace w @ evs @ [Saved oid]"
    using r u by blast
qed


theorem patchUserById_frame_witness:
  "(\<exists>w'. patchUserById sample_env ''60d5f9f5319a5c1d4c8e7b61''
            \<lparr>username_opt = None, password_opt = None, roles_opt = Some [''admin'']\<rparr> sample_world
            = (Inr (), w')
        \<and> find (\<lambda>x. doc_id x = ''60d5f9f5319a5c1d4c8e7b61'') (docs w')
            = Some (bob\<lparr>roles := [''admin'']\<rparr>)
        \<and> trace w' = trace sample_world @ [Saved ''60d5f9f5319a5c1d4c8e7b61''])
   \<and> (\<exists>w' d' evs. patchUserById sample_env ''60d5f9f5319a5c1d4c8e7b61''
            \<lparr>username_opt = Some ''bob'', password_opt = None, roles_opt = None\<rparr> sample_world
            = (Inr (), w')
        \<and> find (\<lambda>x. doc_id x = ''60d5f9f5319a5c1d4c8e7b61'') (docs w') = Some d'
        \<and> username d' = username bob
        \<and> trace w' = trace sample_world @ evs @ [Saved ''60d5f9f5319a5c1d4c8e7b61''])"
proof -
  have c: "castObjectId sample_env ''60d5f9f5319a5c1d4c8e7b61'' = Some ''60d5f9f5319a5c1d4c8e7b61''"
    by (simp add: sample_env_def sample_cast_def is_hex_def)
  have f: "find (\<lambda>x. doc_id x = ''60d5f9f5319a5c1d4c8e7b61'') (docs sample_world) = Some bob"
    by (simp add: sample_world_def alice_def bob_def)
  have n: "username_opt \<lparr>username_opt = Some ''bob'', password_opt = None, roles_opt = None\<rparr>
             = Some (username bob)"
    by (simp add: bob_def)
  from patchUserById_frame [OF c f, of "[''admin'']"
      "\<lparr>username_opt = Some ''bob'', password_opt = None, roles_opt = None\<rparr>"] n
  show ?thesis
    by blast
qed

section \<open>UserService.createUser: what is stored\<close>

lemma getUserByUsername_appended:
  assumes "find (\<lambda>x. username x = n) (docs w) = None" and "docs w' = docs w @ [d]"
    and "username d = n"
  shows "getUserByUsername e (Some n) w' = Inr d"
  using assms
  by (simp add: getUserByUsername_def Model_findOne_def find_append_usernames)

lemma createUser_carol:
  "createUser sample_env carol_candidate sample_world = (Inr (), carol_world)"
  by (simp add: createUser_def Model_findOne_def hashPassword_def Model_create_def
      Document_save_def required_def Let_def carol_candidate_def carol_world_def
      sample_env_def sample_world_def alice_def bob_def)

text \<open>
  C9. For every candidate \<open>createUser\<close> accepts, the candidate carries a plaintext
  password \<open>p\<close>, and \<open>getUserByUsername\<close> on the candidate's username right after the
  call returns a record whose stored password is the hash function's digest of \<open>p\<close>;
  so it is not \<open>p\<close> itself whenever the digest of \<open>p\<close> differs from \<open>p\<close>.
\<close>

theorem createUser_stores_hash:
  assumes "createUser e candidate w = (Inr (), w')"
  shows "\<exists>p d. password_opt candidate = Some p
             \<and> getUserByUsername e (username_opt candidate) w' = Inr d
             \<and> password d = bcrypt_hash e p (BCRYPT_SALT_ROUNDS e)
             \<and> (bcrypt_hash e p (BCRYPT_SALT_ROUNDS e) \<noteq> p \<longrightarrow> password d \<noteq> p)"
proof -
  from createUser_accepted [OF assms] obtain n p where
    c: "username_opt candidate = Some n" "password_opt candidate = Some p"
    and f: "find (\<lambda>d. username d = n) (docs w) = None"
    and d: "docs w' = docs w @ [\<lparr>doc_id = newObjectId e (map doc_id (docs w)), username = n,
                 password = bcrypt_hash e p (BCRYPT_SALT_ROUNDS e), roles = [''user'']\<rparr>]"
    by blast
  let ?d = "\<lparr>doc_id = newObjectId e (map doc_id (docs w)), username = n,
                 password = bcrypt_hash e p (BCRYPT_SALT_ROUNDS e), roles = [''user'']\<rparr>"
  have "getUserByUsername e (Some n) w' = Inr ?d"
    using getUserByUsername_appended [OF f d] by simp
  with c show ?thesis
    by simp
qed

theorem createUser_stores_hash_witness:
  "\<exists>p d. password_opt carol_candidate = Some p
       \<and> getUserByUsername sample_env (username_opt carol_candidate) carol_world = Inr d
       \<and> password d = bcrypt_hash sample_env p (BCRYPT_SALT_ROUNDS sample_env)
       \<and> (bcrypt_hash sample_env p (BCRYPT_SALT_ROUNDS sample_env) \<noteq> p \<longrightarrow> password d \<noteq> p)"
  using createUser_stores_hash [OF createUser_carol] .

text \<open>
  C10. For every candidate \<open>createUser\<close> accepts, whatever roles list the candidate
  supplies, exactly one document is appended, it is the one \<open>getUserByUsername\<close> returns
  for the candidate's username, and its roles are the schema default \<open>['user']\<close>.
\<close>

theorem createUser_default_roles:
  assumes "createUser e candidate w = (Inr (), w')"
  shows "\<exists>d. docs w' = docs w @ [d] \<and> roles d = [''user'']
           \<and> getUserByUsername e (username_opt candidate) w' = Inr d"
proof -
  from createUser_accepted [OF assms] obtain n p where
    c: "username_opt candidate = Some n"
    and f: "find (\<lambda>d. username d = n) (docs w) = None"
    and d: "docs w' = docs w @ [\<lparr>doc_id = newObjectId e (map doc_id (docs w)), username = n,
                 password = bcrypt_hash e p (BCRYPT_SALT_ROUNDS e), roles = [''user'']\<rparr>]"
    by blast
  let ?d = "\<lparr>doc_id = newObjectId e (map doc_id (docs w)), username = n,
                 password = bcrypt_hash e p (BCRYPT_SALT_ROUNDS e), roles = [''user'']\<rparr>"
  have "getUserByUsername e (Some n) w' = Inr ?d"
    using getUserByUsername_appended [OF f d] by simp
  with c d show ?thesis
    by simp
qed

theorem createUser_default_roles_witness:
  "roles_opt carol_candidate = Some [''admin'']
   \<and> (\<exists>d. docs carol_world = docs sample_world @ [d] \<and> roles d = [''user'']
         \<and> getUserByUsername sample_env (username_opt carol_candidate) carol_world = Inr d)"
  using createUser_default_roles [OF createUser_carol]
  by (simp add: carol_candidate_def)

section \<open>UserController.getAllUsers: what the response carries\<close>

text \<open>
  C6, as the code has it. For every state, the body of the list endpoint's response
  holds the stored records in store order, each with its stored password hash: no record
  of the body is redacted.
\<close>

theorem getAllUsers_exposes_password:
  "map json_password (res_body (UserController_getAllUsers w)) = map (\<lambda>d. Some (password d)) (docs w)
   \<and> list_all (\<lambda>j. \<not> redacted j) (res_body (UserController_getAllUsers w))"
  by (simp add: UserController_getAllUsers_def getAllUsers_def Model_find_def toJSON_def
      redacted_def list_all_iff Let_def)

text \<open>
  The claim that every exposed record has the password hash redacted fails on the state
  with the two sample users.
\<close>

theorem getAllUsers_redaction_counterexample:
  "\<not> list_all redacted (res_body (UserController_getAllUsers sample_world))"
  by (simp add: UserController_getAllUsers_def getAllUsers_def Model_find_def toJSON_def
      redacted_def sample_world_def Let_def)

section \<open>UserService.deleteUserById\<close>

text \<open>
  C8, at an id that is not a well-formed identifier (the id \<open>'nonExistentUserId'\<close> of the
  controller's test for a user that does not exist): \<open>deleteUserById\<close> does not throw
  \<open>NotFoundException\<close> but lets the cast error of its \<open>exists\<close> query through (the state is
  unchanged), where \<open>getUserById\<close>, which checks the id first, throws
  \<open>NotFoundException\<close>.
\<close>

theorem deleteUserById_malformed_id:
  "deleteUserById sample_env ''nonExistentUserId'' sample_world = (Inl CastError, sample_world)
   \<and> getUserById sample_env ''nonExistentUserId'' sample_world = Inl NotFoundException"
  by (simp add: deleteUserById_def Model_exists_def getUserById_def ObjectId_isValid_def
      sample_env_def sample_cast_def)

text \<open>
  For well-formed ids the operation is as C8 says: an absent id is refused with
  \<open>NotFoundException\<close> and the state unchanged, and deleting a present id (in a store
  whose ids are distinct) removes the record, so that \<open>getUserById\<close> no longer finds it.
\<close>

lemma find_remove_first:
  "distinct (map doc_id ds) \<Longrightarrow> find (\<lambda>x. doc_id x = oid) (remove_first oid ds) = None"
proof (induction ds)
  case Nil
  then show ?case by simp
next
  case (Cons a ds)
  show ?case
  proof (cases "doc_id a = oid")
    case True
    with Cons.prems have "\<forall>x \<in> set ds. doc_id x \<noteq> oid"
      by (auto simp add: image_iff)
    with True show ?thesis
      by (simp add: find_None_iff)
  next
    case False
    with Cons show ?thesis by simp
  qed
qed

lemma deleteUserById_absent:
  assumes "castObjectId e ident = Some oid" and "find (\<lambda>x. doc_id x = oid) (docs w) = None"
  shows "deleteUserById e ident w = (Inl NotFoundException, w)"
  using assms by (simp add: deleteUserById_def Model_exists_def)

lemma deleteUserById_present:
  assumes "castObjectId e ident = Some oid" and "find (\<lambda>x. doc_id x = oid) (docs w) = Some d"
    and "distinct (map doc_id (docs w))"
  shows "\<exists>w'. deleteUserById e ident w = (Inr (), w')
             \<and> docs w' = remove_first oid (docs w)
             \<and> getUserById e ident w' = Inl NotFoundException"
  using assms find_remove_first [of "docs w" oid]
  by (simp add: deleteUserById_def Model_exists_def Model_findByIdAndDelete_def getUserById_def
      ObjectId_isValid_def Model_findById_def)

end
